theory Spec2Isabelle
  imports Main "HOL-Library.Sublist"
begin

section \<open>The browser, the page and the file system the script drives\<close>

text \<open>
  The script \<^verbatim>\<open>verify_discriminated_unions.py\<close> is straight-line code over the
  Playwright synchronous API. The library, the browser, the web application and the
  disk are external; they are described by the smallest state the script's calls can
  observe or change.

  A page is the list of its elements in document order. An element has a tag, its
  attributes, the option values it offers (empty unless it is a \<^verbatim>\<open>select\<close>) and the
  value currently selected.
\<close>

record element =
  tag :: string
  attrs :: "(string \<times> string) list"
  options :: "string list"
  selected :: string

type_synonym document = "element list"

text \<open>
  \<^verbatim>\<open>page.locator('select[name="type"]')\<close> is \<open>Locator ''select'' ''name'' ''type''\<close>:
  the CSS selector \<^verbatim>\<open>tag[attr="value"]\<close>. The properties \<^verbatim>\<open>.first\<close> and \<^verbatim>\<open>.last\<close>
  of a locator narrow it to its first or last match.
\<close>

datatype locator =
    Locator string string string
  | First locator
  | Last locator

text \<open>What \<^verbatim>\<open>page.screenshot\<close> stores: the page as it is rendered at the time of the
  call, and whether the whole scrollable page or only the viewport was captured.\<close>

record shot =
  captured :: document
  full_page :: bool

datatype error =
    Driver_error
  | Launch_error
  | New_page_error
  | Navigation_error
  | No_element
  | Strict_mode_violation
  | No_option
  | Screenshot_error

text \<open>The calls the script makes on the library's objects, with their arguments.
  \<open>Screenshot path full_page\<close> carries the keyword argument \<^verbatim>\<open>full_page\<close>, \<open>None\<close>
  when the caller does not pass it.\<close>

datatype call =
    Launch
  | New_page
  | Goto string
  | Screenshot string "bool option"
  | Select_option locator string
  | Close

datatype driver_state = Not_started | Running | Stopped

datatype browser_state = Not_launched | Launched | Closed

text \<open>
  The state a run acts on: the calls issued so far, the Playwright driver acquired by
  \<^verbatim>\<open>with sync_playwright()\<close>, the browser handle as \<^verbatim>\<open>launch\<close> and \<^verbatim>\<open>close\<close> leave it,
  the document of the one page, and the files on disk.
\<close>

record world =
  calls :: "call list"
  driver :: driver_state
  browser :: browser_state
  page :: document
  files :: "string \<rightharpoonup> shot"

text \<open>
  What the script cannot decide and the surroundings do: whether the driver starts,
  whether the browser launches and opens a page, what the server answers at a URL
  (\<open>None\<close>: unreachable, or the load fails), how the application re-renders the page
  after the element at an index has changed, and whether a path can be written.
\<close>

record env =
  driver_ok :: bool
  launch_ok :: bool
  new_page_ok :: bool
  site :: "string \<Rightarrow> document option"
  react :: "document \<Rightarrow> nat \<Rightarrow> document"
  writable :: "string \<Rightarrow> bool"

text \<open>A call returns normally with the new state, or raises; the state at the raise is
  kept, since files already written stay written.\<close>

datatype outcome = Ok world | Raised error world

fun world_of :: "outcome \<Rightarrow> world" where
  "world_of (Ok w) = w"
| "world_of (Raised e w) = w"

fun is_ok :: "outcome \<Rightarrow> bool" where
  "is_ok (Ok w) = True"
| "is_ok (Raised e w) = False"

text \<open>The exit status of the Python process: 0 when the module body returns, 1 when an
  exception reaches the top level.\<close>

fun exit_status :: "outcome \<Rightarrow> nat" where
  "exit_status (Ok w) = 0"
| "exit_status (Raised e w) = 1"

definition issue :: "call \<Rightarrow> world \<Rightarrow> world" where
  "issue c w = w\<lparr>calls := calls w @ [c]\<rparr>"

subsection \<open>The library calls\<close>

definition launch :: "env \<Rightarrow> world \<Rightarrow> outcome" where
  "launch e w =
     (let w' = issue Launch w in
      if launch_ok e then Ok (w'\<lparr>browser := Launched\<rparr>) else Raised Launch_error w')"

definition new_page :: "env \<Rightarrow> world \<Rightarrow> outcome" where
  "new_page e w =
     (let w' = issue New_page w in
      if new_page_ok e then Ok (w'\<lparr>page := []\<rparr>) else Raised New_page_error w')"

definition goto :: "env \<Rightarrow> string \<Rightarrow> world \<Rightarrow> outcome" where
  "goto e url w =
     (let w' = issue (Goto url) w in
      case site e url of
        None \<Rightarrow> Raised Navigation_error w'
      | Some d \<Rightarrow> Ok (w'\<lparr>page := d\<rparr>))"

text \<open>\<^verbatim>\<open>page.screenshot(path=..., full_page=...)\<close>: \<^verbatim>\<open>full_page\<close> defaults to false, the
  visible viewport. An existing file at the path is replaced.\<close>

definition screenshot :: "env \<Rightarrow> string \<Rightarrow> bool option \<Rightarrow> world \<Rightarrow> outcome" where
  "screenshot e path fp w =
     (let w' = issue (Screenshot path fp) w in
      if writable e path
      then Ok (w'\<lparr>files := (files w)(path \<mapsto>
                 \<lparr>captured = page w,
                  full_page = (case fp of None \<Rightarrow> False | Some b \<Rightarrow> b)\<rparr>)\<rparr>)
      else Raised Screenshot_error w')"

text \<open>The indices of the elements a locator matches, in document order.\<close>

fun matching :: "document \<Rightarrow> locator \<Rightarrow> nat list" where
  "matching d (Locator t a v) =
     filter (\<lambda>i. tag (d ! i) = t \<and> map_of (attrs (d ! i)) a = Some v) [0..<length d]"
| "matching d (First l) = take 1 (matching d l)"
| "matching d (Last l) = (let ms = matching d l in drop (length ms - 1) ms)"

text \<open>The page after the element at index \<open>i\<close> has been set to \<open>v\<close> and the application
  has reacted to the change.\<close>

definition chosen :: "env \<Rightarrow> document \<Rightarrow> nat \<Rightarrow> string \<Rightarrow> document" where
  "chosen e d i v = react e (d[i := (d ! i)\<lparr>selected := v\<rparr>]) i"

text \<open>
  \<^verbatim>\<open>locator.select_option(value)\<close>. Locators are strict: an action on a locator that
  matches more than one element raises; one that matches none raises when the wait for
  an element times out; so does a value that is not among the element's options.
\<close>

definition select_result :: "env \<Rightarrow> document \<Rightarrow> locator \<Rightarrow> string \<Rightarrow> error + document" where
  "select_result e d loc v =
     (let ms = matching d loc in
      if ms = [] then Inl No_element
      else if 1 < length ms then Inl Strict_mode_violation
      else if v \<in> set (options (d ! hd ms)) then Inr (chosen e d (hd ms) v)
      else Inl No_option)"

definition select_option :: "env \<Rightarrow> locator \<Rightarrow> string \<Rightarrow> world \<Rightarrow> outcome" where
  "select_option e loc v w =
     (let w' = issue (Select_option loc v) w in
      case select_result e (page w) loc v of
        Inl err \<Rightarrow> Raised err w'
      | Inr d \<Rightarrow> Ok (w'\<lparr>page := d\<rparr>))"

definition close :: "world \<Rightarrow> outcome" where
  "close w = Ok ((issue Close w)\<lparr>browser := Closed\<rparr>)"

section \<open>The script\<close>

text \<open>Statements in sequence: each acts on the state the one before it left; a statement
  that raises ends the sequence, and the exception goes to the caller.\<close>

fun sequence :: "(world \<Rightarrow> outcome) list \<Rightarrow> world \<Rightarrow> outcome" where
  "sequence [] w = Ok w"
| "sequence (f # fs) w =
     (case f w of Ok u \<Rightarrow> sequence fs u | Raised err u \<Rightarrow> Raised err u)"

text \<open>\<^verbatim>\<open>run(playwright)\<close>: the statements of the function body, in order; it has no
  \<^verbatim>\<open>try\<close>.\<close>

definition run :: "env \<Rightarrow> world \<Rightarrow> outcome" where
  "run e = sequence
     [launch e,
      new_page e,
      goto e ''http://localhost:3004/'',
      screenshot e ''jules-scratch/verification/01_initial.png'' None,
      select_option e (First (Locator ''select'' ''name'' ''type'')) ''dog'',
      screenshot e ''jules-scratch/verification/02_auto_form_dog.png'' None,
      select_option e (Locator ''select'' ''aria-label'' ''kind'') ''b'',
      screenshot e ''jules-scratch/verification/03_field_example_b.png'' None,
      select_option e (Last (Locator ''select'' ''aria-label'' ''type'')) ''member'',
      screenshot e ''jules-scratch/verification/04_select_example_member.png'' None,
      close]"

text \<open>The state of a fresh process: nothing called, nothing acquired, the files that
  are on disk.\<close>

definition start :: "(string \<rightharpoonup> shot) \<Rightarrow> world" where
  "start fs = \<lparr>calls = [], driver = Not_started, browser = Not_launched, page = [], files = fs\<rparr>"

text \<open>\<^verbatim>\<open>with sync_playwright() as playwright: body\<close>: the context manager starts the
  driver; if that fails the body is not entered. When the body is left, by return or by
  exception, the driver is stopped, and an exception is raised again.\<close>

definition sync_playwright :: "env \<Rightarrow> (world \<Rightarrow> outcome) \<Rightarrow> world \<Rightarrow> outcome" where
  "sync_playwright e body w =
     (if driver_ok e then
        (case body (w\<lparr>driver := Running\<rparr>) of
           Ok w' \<Rightarrow> Ok (w'\<lparr>driver := Stopped\<rparr>)
         | Raised err w' \<Rightarrow> Raised err (w'\<lparr>driver := Stopped\<rparr>))
      else Raised Driver_error w)"

text \<open>The module: executed once per process, on the files that are on disk.\<close>

definition main :: "env \<Rightarrow> (string \<rightharpoonup> shot) \<Rightarrow> outcome" where
  "main e fs = sync_playwright e (run e) (start fs)"

section \<open>Vocabulary of the properties\<close>

text \<open>The calls of \<^verbatim>\<open>run\<close> in the order of its statements.\<close>

definition script :: "call list" where
  "script =
     [Launch,
      New_page,
      Goto ''http://localhost:3004/'',
      Screenshot ''jules-scratch/verification/01_initial.png'' None,
      Select_option (First (Locator ''select'' ''name'' ''type'')) ''dog'',
      Screenshot ''jules-scratch/verification/02_auto_form_dog.png'' None,
      Select_option (Locator ''select'' ''aria-label'' ''kind'') ''b'',
      Screenshot ''jules-scratch/verification/03_field_example_b.png'' None,
      Select_option (Last (Locator ''select'' ''aria-label'' ''type'')) ''member'',
      Screenshot ''jules-scratch/verification/04_select_example_member.png'' None,
      Close]"

text \<open>The four screenshot paths and the three selections, in the order of the script.\<close>

definition shots :: "string list" where
  "shots =
     [''jules-scratch/verification/01_initial.png'',
      ''jules-scratch/verification/02_auto_form_dog.png'',
      ''jules-scratch/verification/03_field_example_b.png'',
      ''jules-scratch/verification/04_select_example_member.png'']"

definition selections :: "(locator \<times> string) list" where
  "selections =
     [(First (Locator ''select'' ''name'' ''type''), ''dog''),
      (Locator ''select'' ''aria-label'' ''kind'', ''b''),
      (Last (Locator ''select'' ''aria-label'' ''type''), ''member'')]"

text \<open>The page after a list of selections has been applied to it, one after the other.\<close>

fun select_all :: "env \<Rightarrow> document \<Rightarrow> (locator \<times> string) list \<Rightarrow> error + document" where
  "select_all e d [] = Inr d"
| "select_all e d (s # ss) =
     (case select_result e d (fst s) (snd s) of
        Inl err \<Rightarrow> Inl err
      | Inr d' \<Rightarrow> select_all e d' ss)"

text \<open>The statements of \<^verbatim>\<open>run\<close> with the literals as parameters; \<open>run\<close> is the instance
  at the literals of the script.\<close>

definition steps :: "env \<Rightarrow> string \<Rightarrow> string \<Rightarrow> locator \<Rightarrow> string \<Rightarrow> string \<Rightarrow>
    locator \<Rightarrow> string \<Rightarrow> string \<Rightarrow> locator \<Rightarrow> string \<Rightarrow> string \<Rightarrow> world \<Rightarrow> outcome" where
  "steps e u p1 l1 v1 p2 l2 v2 p3 l3 v3 p4 =
     sequence
       [launch e, new_page e, goto e u, screenshot e p1 None,
        select_option e l1 v1, screenshot e p2 None,
        select_option e l2 v2, screenshot e p3 None,
        select_option e l3 v3, screenshot e p4 None,
        close]"

text \<open>The module with the same parameters.\<close>

definition session :: "env \<Rightarrow> string \<Rightarrow> string \<Rightarrow> locator \<Rightarrow> string \<Rightarrow> string \<Rightarrow>
    locator \<Rightarrow> string \<Rightarrow> string \<Rightarrow> locator \<Rightarrow> string \<Rightarrow> string \<Rightarrow> (string \<rightharpoonup> shot) \<Rightarrow> outcome" where
  "session e u p1 l1 v1 p2 l2 v2 p3 l3 v3 p4 fs =
     sync_playwright e (steps e u p1 l1 v1 p2 l2 v2 p3 l3 v3 p4) (start fs)"

subsection \<open>Pages and surroundings to run the script on\<close>

text \<open>A \<^verbatim>\<open>select\<close> control with one attribute, its option values and its selected value.\<close>

definition select_ctl :: "string \<Rightarrow> string \<Rightarrow> string list \<Rightarrow> string \<Rightarrow> element" where
  "select_ctl a v opts sel = \<lparr>tag = ''select'', attrs = [(a, v)], options = opts, selected = sel\<rparr>"

text \<open>A page of three controls, one for each example form of the application: the
  options of each control and the value selected in it.\<close>

definition forms :: "string list \<Rightarrow> string \<Rightarrow> string list \<Rightarrow> string \<Rightarrow> string list \<Rightarrow> string \<Rightarrow> document" where
  "forms xs x ys y zs z =
     [select_ctl ''name'' ''type'' xs x,
      select_ctl ''aria-label'' ''kind'' ys y,
      select_ctl ''aria-label'' ''type'' zs z]"

definition demo_page :: document where
  "demo_page = forms [''cat'', ''dog''] ''cat'' [''a'', ''b''] ''a'' [''guest'', ''member''] ''guest''"

text \<open>Pages with no control and with two controls labelled \<^verbatim>\<open>kind\<close>; the argument is
  the value selected in the first control.\<close>

definition no_kind_page :: "string \<Rightarrow> document" where
  "no_kind_page x =
     [select_ctl ''name'' ''type'' [''cat'', ''dog''] x,
      select_ctl ''aria-label'' ''type'' [''guest'', ''member''] ''guest'']"

definition two_kind_page :: "string \<Rightarrow> document" where
  "two_kind_page x =
     [select_ctl ''name'' ''type'' [''cat'', ''dog''] x,
      select_ctl ''aria-label'' ''kind'' [''a'', ''b''] ''a'',
      select_ctl ''aria-label'' ''kind'' [''a'', ''b''] ''a'',
      select_ctl ''aria-label'' ''type'' [''guest'', ''member''] ''guest'']"

text \<open>Surroundings in which everything works: the server answers the script's address
  with the given page, and the page stays as a selection leaves it.\<close>

definition serving :: "document \<Rightarrow> env" where
  "serving d =
     \<lparr>driver_ok = True, launch_ok = True, new_page_ok = True,
      site = (\<lambda>u. if u = ''http://localhost:3004/'' then Some d else None),
      react = (\<lambda>d i. d),
      writable = (\<lambda>p. True)\<rparr>"

definition demo_env :: env where
  "demo_env = serving demo_page"

text \<open>The same surroundings with the server down.\<close>

definition down_env :: env where
  "down_env = demo_env\<lparr>site := (\<lambda>u. None)\<rparr>"

section \<open>The script as an instance of its parametrised form\<close>

lemma run_steps:
  "run e = steps e ''http://localhost:3004/''
     ''jules-scratch/verification/01_initial.png''
     (First (Locator ''select'' ''name'' ''type'')) ''dog''
     ''jules-scratch/verification/02_auto_form_dog.png''
     (Locator ''select'' ''aria-label'' ''kind'') ''b''
     ''jules-scratch/verification/03_field_example_b.png''
     (Last (Locator ''select'' ''aria-label'' ''type'')) ''member''
     ''jules-scratch/verification/04_select_example_member.png''"
  unfolding run_def steps_def by (rule refl)

lemma main_session:
  "main e = session e ''http://localhost:3004/''
     ''jules-scratch/verification/01_initial.png''
     (First (Locator ''select'' ''name'' ''type'')) ''dog''
     ''jules-scratch/verification/02_auto_form_dog.png''
     (Locator ''select'' ''aria-label'' ''kind'') ''b''
     ''jules-scratch/verification/03_field_example_b.png''
     (Last (Locator ''select'' ''aria-label'' ''type'')) ''member''
     ''jules-scratch/verification/04_select_example_member.png''"
  unfolding main_def session_def run_steps by (rule refl)

lemmas call_defs = launch_def new_page_def goto_def screenshot_def select_option_def close_def
  issue_def Let_def

lemmas session_defs = session_def sync_playwright_def steps_def start_def

lemma length_shots: "length shots = 4"
  by (simp add: shots_def)

lemma length_selections: "length selections = 3"
  by (simp add: selections_def)

lemma shots_distinct: "distinct shots"
  by (simp add: shots_def)

lemma shots_nth_eq: "i < 4 \<Longrightarrow> j < 4 \<Longrightarrow> shots ! i = shots ! j \<longleftrightarrow> i = j"
  using shots_distinct by (simp add: nth_eq_iff_index_eq length_shots)

lemma selections_nth:
  "selections ! 0 = (First (Locator ''select'' ''name'' ''type''), ''dog'')"
  "selections ! 1 = (Locator ''select'' ''aria-label'' ''kind'', ''b'')"
  "selections ! 2 = (Last (Locator ''select'' ''aria-label'' ''type''), ''member'')"
  by (simp_all add: selections_def)

lemma take_selections:
  "take 0 selections = []"
  "take 1 selections = [selections ! 0]"
  "take 2 selections = [selections ! 0, selections ! 1]"
  "take 3 selections = [selections ! 0, selections ! 1, selections ! 2]"
  "take (Suc 0) selections = [selections ! 0]"
  by (simp_all add: selections_def)

lemma main_session_indexed:
  "main e = session e ''http://localhost:3004/''
     (shots ! 0) (fst (selections ! 0)) (snd (selections ! 0))
     (shots ! 1) (fst (selections ! 1)) (snd (selections ! 1))
     (shots ! 2) (fst (selections ! 2)) (snd (selections ! 2))
     (shots ! 3)"
  by (simp add: main_session shots_def selections_def)

lemma script_indexed:
  "script =
     [Launch, New_page, Goto ''http://localhost:3004/'',
      Screenshot (shots ! 0) None, Select_option (fst (selections ! 0)) (snd (selections ! 0)),
      Screenshot (shots ! 1) None, Select_option (fst (selections ! 1)) (snd (selections ! 1)),
      Screenshot (shots ! 2) None, Select_option (fst (selections ! 2)) (snd (selections ! 2)),
      Screenshot (shots ! 3) None, Close]"
  by (simp add: script_def shots_def selections_def)

section \<open>Selecting an option\<close>


lemma select_result_Inr_iff:
  "select_result e d l v = Inr d' \<longleftrightarrow>
     (\<exists>i. matching d l = [i] \<and> v \<in> set (options (d ! i)) \<and> d' = chosen e d i v)"
proof -
  have one: "ms \<noteq> [] \<and> \<not> 1 < length ms \<longleftrightarrow> (\<exists>i. ms = [i])" for ms :: "nat list"
    by (cases ms) auto
  show ?thesis
    using one [of "matching d l"]
    by (auto simp add: select_result_def Let_def)
qed

lemma select_result_no_element:
  "matching d l = [] \<Longrightarrow> select_result e d l v = Inl No_element"
  by (simp add: select_result_def)

lemma select_result_strict:
  "1 < length (matching d l) \<Longrightarrow> select_result e d l v = Inl Strict_mode_violation"
  by (auto simp add: select_result_def Let_def)

lemma select_result_no_option:
  "matching d l = [i] \<Longrightarrow> v \<notin> set (options (d ! i)) \<Longrightarrow> select_result e d l v = Inl No_option"
  by (simp add: select_result_def)

lemma matching_First_le: "length (matching d (First l)) \<le> 1"
  by simp

lemma matching_Last_le: "length (matching d (Last l)) \<le> 1"
  by (simp add: Let_def)

lemma select_result_First_not_strict:
  "select_result e d (First l) v \<noteq> Inl Strict_mode_violation"
  using matching_First_le [of d l] by (auto simp add: select_result_def Let_def simp del: matching.simps)

lemma select_result_Last_not_strict:
  "select_result e d (Last l) v \<noteq> Inl Strict_mode_violation"
  using matching_Last_le [of d l] by (auto simp add: select_result_def Let_def simp del: matching.simps)

lemma matching_bound: "i \<in> set (matching d l) \<Longrightarrow> i < length d"
  by (induction l arbitrary: i) (auto simp add: Let_def dest: in_set_takeD in_set_dropD)

lemma select_result_static:
  assumes "\<forall>d i. react e d i = d" and "select_result e d l v = Inr d'"
  obtains i where "matching d l = [i]" "i < length d" "d' = d[i := (d ! i)\<lparr>selected := v\<rparr>]"
proof -
  from assms(2) obtain i where i: "matching d l = [i]" and d': "d' = chosen e d i v"
    by (auto simp add: select_result_Inr_iff)
  from i have "i < length d"
    by (intro matching_bound [of i d l]) simp
  with i d' assms(1) that show thesis
    by (simp add: chosen_def)
qed

lemma static_selections:
  assumes st: "\<forall>d i. react e d i = d"
    and s1: "select_result e d0 l1 v1 = Inr d1"
    and s2: "select_result e d1 l2 v2 = Inr d2"
    and s3: "select_result e d2 l3 v3 = Inr d3"
  shows "\<exists>i1 i2 i3.
     matching d0 l1 = [i1] \<and> matching d1 l2 = [i2] \<and> matching d2 l3 = [i3] \<and>
     selected (d1 ! i1) = v1 \<and>
     selected (d2 ! i2) = v2 \<and> (i1 \<noteq> i2 \<longrightarrow> selected (d2 ! i1) = v1) \<and>
     selected (d3 ! i3) = v3 \<and> (i2 \<noteq> i3 \<longrightarrow> selected (d3 ! i2) = v2) \<and>
     (i1 \<noteq> i2 \<and> i1 \<noteq> i3 \<longrightarrow> selected (d3 ! i1) = v1)"
proof -
  from select_result_static [OF st s1] obtain i1 where
    i1: "matching d0 l1 = [i1]" "i1 < length d0" "d1 = d0[i1 := (d0 ! i1)\<lparr>selected := v1\<rparr>]"
    by blast
  from select_result_static [OF st s2] obtain i2 where
    i2: "matching d1 l2 = [i2]" "i2 < length d1" "d2 = d1[i2 := (d1 ! i2)\<lparr>selected := v2\<rparr>]"
    by blast
  from select_result_static [OF st s3] obtain i3 where
    i3: "matching d2 l3 = [i3]" "i3 < length d2" "d3 = d2[i3 := (d2 ! i3)\<lparr>selected := v3\<rparr>]"
    by blast
  have len: "length d1 = length d0" "length d2 = length d0" "length d3 = length d0"
    by (simp_all add: i1(3) i2(3) i3(3))
  have a: "selected (d1 ! i1) = v1"
    using i1(2) by (simp add: i1(3))
  have b: "selected (d2 ! i2) = v2"
    using i2(2) by (simp add: i2(3))
  have c: "selected (d3 ! i3) = v3"
    using i3(2) by (simp add: i3(3))
  have ab: "selected (d2 ! i1) = v1" if "i1 \<noteq> i2"
    using that a by (simp add: i2(3))
  have bc: "selected (d3 ! i2) = v2" if "i2 \<noteq> i3"
    using that b by (simp add: i3(3))
  have ac: "selected (d3 ! i1) = v1" if "i1 \<noteq> i2" "i1 \<noteq> i3"
    using that ab by (simp add: i3(3))
  from i1(1) i2(1) i3(1) a b c ab bc ac show ?thesis
    by blast
qed

lemma select_all_1: "select_all e d [s] = select_result e d (fst s) (snd s)"
  by (simp split: sum.splits)

lemma select_all_2:
  "select_all e d [s, t] = Inr d2 \<longleftrightarrow>
     (\<exists>d1. select_result e d (fst s) (snd s) = Inr d1 \<and> select_result e d1 (fst t) (snd t) = Inr d2)"
  by (simp split: sum.splits)

section \<open>Runs that complete\<close>

lemma session_Ok_D:
  assumes "session e u p1 l1 v1 p2 l2 v2 p3 l3 v3 p4 fs = Ok w"
  shows "driver_ok e \<and> launch_ok e \<and> new_page_ok e \<and>
    writable e p1 \<and> writable e p2 \<and> writable e p3 \<and> writable e p4 \<and>
    (\<exists>d0 d1 d2 d3.
       site e u = Some d0 \<and> select_result e d0 l1 v1 = Inr d1 \<and>
       select_result e d1 l2 v2 = Inr d2 \<and> select_result e d2 l3 v3 = Inr d3 \<and>
       w = \<lparr>calls = [Launch, New_page, Goto u, Screenshot p1 None, Select_option l1 v1,
               Screenshot p2 None, Select_option l2 v2, Screenshot p3 None,
               Select_option l3 v3, Screenshot p4 None, Close],
            driver = Stopped, browser = Closed, page = d3,
            files = fs(p1 \<mapsto> \<lparr>captured = d0, full_page = False\<rparr>,
                       p2 \<mapsto> \<lparr>captured = d1, full_page = False\<rparr>,
                       p3 \<mapsto> \<lparr>captured = d2, full_page = False\<rparr>,
                       p4 \<mapsto> \<lparr>captured = d3, full_page = False\<rparr>)\<rparr>)"
  using assms
  by (auto simp add: session_defs call_defs split: if_splits option.splits sum.splits)

lemma session_Ok_I:
  assumes "driver_ok e" "launch_ok e" "new_page_ok e"
    and "writable e p1" "writable e p2" "writable e p3" "writable e p4"
    and "site e u = Some d0" "select_result e d0 l1 v1 = Inr d1"
    and "select_result e d1 l2 v2 = Inr d2" "select_result e d2 l3 v3 = Inr d3"
  shows "session e u p1 l1 v1 p2 l2 v2 p3 l3 v3 p4 fs =
     Ok \<lparr>calls = [Launch, New_page, Goto u, Screenshot p1 None, Select_option l1 v1,
               Screenshot p2 None, Select_option l2 v2, Screenshot p3 None,
               Select_option l3 v3, Screenshot p4 None, Close],
            driver = Stopped, browser = Closed, page = d3,
            files = fs(p1 \<mapsto> \<lparr>captured = d0, full_page = False\<rparr>,
                       p2 \<mapsto> \<lparr>captured = d1, full_page = False\<rparr>,
                       p3 \<mapsto> \<lparr>captured = d2, full_page = False\<rparr>,
                       p4 \<mapsto> \<lparr>captured = d3, full_page = False\<rparr>)\<rparr>"
  using assms by (simp add: session_defs call_defs)

lemma session_shots:
  assumes "session e u p1 l1 v1 p2 l2 v2 p3 l3 v3 p4 fs = Ok w" and "p \<in> {p1, p2, p3, p4}"
  shows "\<exists>d. files w p = Some \<lparr>captured = d, full_page = False\<rparr>"
  using session_Ok_D [OF assms(1)] assms(2) by auto

lemma session_rerun:
  assumes "session e u p1 l1 v1 p2 l2 v2 p3 l3 v3 p4 fs = Ok w"
  shows "session e u p1 l1 v1 p2 l2 v2 p3 l3 v3 p4 (files w) = Ok w"
    and "{p1, p2, p3, p4} \<subseteq> dom (files w)"
    and "is_ok (session e u p1 l1 v1 p2 l2 v2 p3 l3 v3 p4 fs')"
    and "p \<in> {p1, p2, p3, p4} \<Longrightarrow>
          files (world_of (session e u p1 l1 v1 p2 l2 v2 p3 l3 v3 p4 fs')) p = files w p"
proof -
  from session_Ok_D [OF assms] obtain d0 d1 d2 d3 where
    c: "driver_ok e" "launch_ok e" "new_page_ok e"
      "writable e p1" "writable e p2" "writable e p3" "writable e p4"
      "site e u = Some d0" "select_result e d0 l1 v1 = Inr d1"
      "select_result e d1 l2 v2 = Inr d2" "select_result e d2 l3 v3 = Inr d3"
    and w: "w = \<lparr>calls = [Launch, New_page, Goto u, Screenshot p1 None, Select_option l1 v1,
               Screenshot p2 None, Select_option l2 v2, Screenshot p3 None,
               Select_option l3 v3, Screenshot p4 None, Close],
            driver = Stopped, browser = Closed, page = d3,
            files = fs(p1 \<mapsto> \<lparr>captured = d0, full_page = False\<rparr>,
                       p2 \<mapsto> \<lparr>captured = d1, full_page = False\<rparr>,
                       p3 \<mapsto> \<lparr>captured = d2, full_page = False\<rparr>,
                       p4 \<mapsto> \<lparr>captured = d3, full_page = False\<rparr>)\<rparr>"
    by blast
  note again = session_Ok_I [OF c]
  have same: "(files w)(p1 \<mapsto> \<lparr>captured = d0, full_page = False\<rparr>,
                       p2 \<mapsto> \<lparr>captured = d1, full_page = False\<rparr>,
                       p3 \<mapsto> \<lparr>captured = d2, full_page = False\<rparr>,
                       p4 \<mapsto> \<lparr>captured = d3, full_page = False\<rparr>) = files w"
    by (rule ext) (simp add: w)
  show "session e u p1 l1 v1 p2 l2 v2 p3 l3 v3 p4 (files w) = Ok w"
    unfolding again [of "files w"] same by (simp add: w)
  show "{p1, p2, p3, p4} \<subseteq> dom (files w)"
    by (simp add: w)
  show "is_ok (session e u p1 l1 v1 p2 l2 v2 p3 l3 v3 p4 fs')"
    by (simp add: again)
  show "files (world_of (session e u p1 l1 v1 p2 l2 v2 p3 l3 v3 p4 fs')) p = files w p"
    if "p \<in> {p1, p2, p3, p4}"
    using that by (auto simp add: again w)
qed

section \<open>Runs that raise\<close>

lemma session_goto_raises:
  assumes "driver_ok e" "launch_ok e" "new_page_ok e" "site e u = None"
  shows "session e u p1 l1 v1 p2 l2 v2 p3 l3 v3 p4 fs =
     Raised Navigation_error
       \<lparr>calls = [Launch, New_page, Goto u], driver = Stopped, browser = Launched,
        page = [], files = fs\<rparr>"
  using assms by (simp add: session_defs call_defs)

lemma session_unreachable:
  assumes "site e u = None"
  shows "\<not> is_ok (session e u p1 l1 v1 p2 l2 v2 p3 l3 v3 p4 fs)"
    and "files (world_of (session e u p1 l1 v1 p2 l2 v2 p3 l3 v3 p4 fs)) = fs"
    and "Screenshot p fp \<notin> set (calls (world_of (session e u p1 l1 v1 p2 l2 v2 p3 l3 v3 p4 fs)))"
  using assms by (simp_all add: session_defs call_defs)

lemma session_select1_raises:
  assumes "driver_ok e" "launch_ok e" "new_page_ok e"
    and "site e u = Some d0" "writable e p1" "select_result e d0 l1 v1 = Inl err"
  shows "session e u p1 l1 v1 p2 l2 v2 p3 l3 v3 p4 fs =
     Raised err
       \<lparr>calls = [Launch, New_page, Goto u, Screenshot p1 None, Select_option l1 v1],
        driver = Stopped, browser = Launched, page = d0,
        files = fs(p1 \<mapsto> \<lparr>captured = d0, full_page = False\<rparr>)\<rparr>"
  using assms by (simp add: session_defs call_defs)

lemma session_select2_raises:
  assumes "driver_ok e" "launch_ok e" "new_page_ok e"
    and "site e u = Some d0" "writable e p1" "select_result e d0 l1 v1 = Inr d1"
    and "writable e p2" "select_result e d1 l2 v2 = Inl err"
  shows "session e u p1 l1 v1 p2 l2 v2 p3 l3 v3 p4 fs =
     Raised err
       \<lparr>calls = [Launch, New_page, Goto u, Screenshot p1 None, Select_option l1 v1,
                 Screenshot p2 None, Select_option l2 v2],
        driver = Stopped, browser = Launched, page = d1,
        files = fs(p1 \<mapsto> \<lparr>captured = d0, full_page = False\<rparr>,
                   p2 \<mapsto> \<lparr>captured = d1, full_page = False\<rparr>)\<rparr>"
  using assms by (simp add: session_defs call_defs)

lemma session_select3_raises:
  assumes "driver_ok e" "launch_ok e" "new_page_ok e"
    and "site e u = Some d0" "writable e p1" "select_result e d0 l1 v1 = Inr d1"
    and "writable e p2" "select_result e d1 l2 v2 = Inr d2"
    and "writable e p3" "select_result e d2 l3 v3 = Inl err"
  shows "session e u p1 l1 v1 p2 l2 v2 p3 l3 v3 p4 fs =
     Raised err
       \<lparr>calls = [Launch, New_page, Goto u, Screenshot p1 None, Select_option l1 v1,
                 Screenshot p2 None, Select_option l2 v2, Screenshot p3 None,
                 Select_option l3 v3],
        driver = Stopped, browser = Launched, page = d2,
        files = fs(p1 \<mapsto> \<lparr>captured = d0, full_page = False\<rparr>,
                   p2 \<mapsto> \<lparr>captured = d1, full_page = False\<rparr>,
                   p3 \<mapsto> \<lparr>captured = d2, full_page = False\<rparr>)\<rparr>"
  using assms by (simp add: session_defs call_defs)

lemma session_strict_only_second:
  assumes "session e u p1 (First l) v1 p2 l2 v2 p3 (Last l') v3 p4 fs = Raised Strict_mode_violation w"
  shows "last (calls w) = Select_option l2 v2"
  using assms select_result_First_not_strict [of e _ l v1] select_result_Last_not_strict [of e _ l' v3]
  by (auto simp add: session_defs call_defs split: option.splits sum.splits if_splits)

lemma session_prefix:
  "prefix (calls (world_of (session e u p1 l1 v1 p2 l2 v2 p3 l3 v3 p4 fs)))
     [Launch, New_page, Goto u, Screenshot p1 None, Select_option l1 v1,
      Screenshot p2 None, Select_option l2 v2, Screenshot p3 None, Select_option l3 v3,
      Screenshot p4 None, Close]"
  by (simp add: session_defs call_defs split: option.splits sum.splits)



section \<open>The module\<close>


lemma main_prefix: "prefix (calls (world_of (main e fs))) script"
  unfolding main_session script_def by (rule session_prefix)

lemma main_Ok_calls: "main e fs = Ok w \<Longrightarrow> calls w = script"
  unfolding main_session script_def by (drule session_Ok_D) auto

lemma main_Ok_world:
  assumes "is_ok (main e fs)"
  obtains d0 d1 d2 d3 where
    "site e ''http://localhost:3004/'' = Some d0"
    "select_result e d0 (First (Locator ''select'' ''name'' ''type'')) ''dog'' = Inr d1"
    "select_result e d1 (Locator ''select'' ''aria-label'' ''kind'') ''b'' = Inr d2"
    "select_result e d2 (Last (Locator ''select'' ''aria-label'' ''type'')) ''member'' = Inr d3"
    "main e fs = Ok \<lparr>calls = script, driver = Stopped, browser = Closed, page = d3,
        files = fs(''jules-scratch/verification/01_initial.png'' \<mapsto> \<lparr>captured = d0, full_page = False\<rparr>,
                   ''jules-scratch/verification/02_auto_form_dog.png'' \<mapsto> \<lparr>captured = d1, full_page = False\<rparr>,
                   ''jules-scratch/verification/03_field_example_b.png'' \<mapsto> \<lparr>captured = d2, full_page = False\<rparr>,
                   ''jules-scratch/verification/04_select_example_member.png'' \<mapsto> \<lparr>captured = d3, full_page = False\<rparr>)\<rparr>"
proof -
  from assms obtain w where w: "main e fs = Ok w"
    by (cases "main e fs") simp_all
  from session_Ok_D [OF w [unfolded main_session]] w that show thesis
    unfolding script_def by blast
qed

section \<open>The example pages\<close>

lemma serving_simps:
  "driver_ok (serving d)" "launch_ok (serving d)" "new_page_ok (serving d)"
  "writable (serving d) p" "site (serving d) ''http://localhost:3004/'' = Some d"
  "react (serving d) d' i = d'"
  by (simp_all add: serving_def)

lemma matching_forms:
  "matching (forms xs x ys y zs z) (First (Locator ''select'' ''name'' ''type'')) = [0]"
  "matching (forms xs x ys y zs z) (Locator ''select'' ''aria-label'' ''kind'') = [1]"
  "matching (forms xs x ys y zs z) (Last (Locator ''select'' ''aria-label'' ''type'')) = [2]"
  by (simp_all add: forms_def select_ctl_def upt_rec [of 0] upt_rec [of 1] upt_rec [of 2] upt_rec [of 3])

lemma select_forms:
  "select_result (serving d) (forms xs x ys y zs z) (First (Locator ''select'' ''name'' ''type'')) v =
     (if v \<in> set xs then Inr (forms xs v ys y zs z) else Inl No_option)"
  "select_result (serving d) (forms xs x ys y zs z) (Locator ''select'' ''aria-label'' ''kind'') v =
     (if v \<in> set ys then Inr (forms xs x ys v zs z) else Inl No_option)"
  "select_result (serving d) (forms xs x ys y zs z) (Last (Locator ''select'' ''aria-label'' ''type'')) v =
     (if v \<in> set zs then Inr (forms xs x ys y zs v) else Inl No_option)"
  unfolding select_result_def matching_forms
  by (simp_all add: chosen_def serving_simps forms_def select_ctl_def)

lemma kind_pages:
  "select_result (serving d) (no_kind_page ''cat'') (First (Locator ''select'' ''name'' ''type'')) ''dog'' =
     Inr (no_kind_page ''dog'')"
  "select_result (serving d) (two_kind_page ''cat'') (First (Locator ''select'' ''name'' ''type'')) ''dog'' =
     Inr (two_kind_page ''dog'')"
  "matching (no_kind_page x) (Locator ''select'' ''aria-label'' ''kind'') = []"
  "matching (two_kind_page x) (Locator ''select'' ''aria-label'' ''kind'') = [1, 2]"
  by (simp_all add: no_kind_page_def two_kind_page_def select_ctl_def select_result_def chosen_def serving_simps
      upt_rec [of 0] upt_rec [of 1] upt_rec [of 2] upt_rec [of 3] upt_rec [of 4])

lemma main_serving_forms:
  assumes "''dog'' \<in> set xs" "''b'' \<in> set ys" "''member'' \<in> set zs"
  shows "main (serving (forms xs x ys y zs z)) fs =
    Ok \<lparr>calls = script, driver = Stopped, browser = Closed,
        page = forms xs ''dog'' ys ''b'' zs ''member'',
        files = fs(''jules-scratch/verification/01_initial.png'' \<mapsto>
                     \<lparr>captured = forms xs x ys y zs z, full_page = False\<rparr>,
                   ''jules-scratch/verification/02_auto_form_dog.png'' \<mapsto>
                     \<lparr>captured = forms xs ''dog'' ys y zs z, full_page = False\<rparr>,
                   ''jules-scratch/verification/03_field_example_b.png'' \<mapsto>
                     \<lparr>captured = forms xs ''dog'' ys ''b'' zs z, full_page = False\<rparr>,
                   ''jules-scratch/verification/04_select_example_member.png'' \<mapsto>
                     \<lparr>captured = forms xs ''dog'' ys ''b'' zs ''member'', full_page = False\<rparr>)\<rparr>"
  unfolding main_session script_def
  by (rule session_Ok_I) (simp_all only: serving_simps select_forms assms if_True)

lemma main_demo:
  "main demo_env fs =
    Ok \<lparr>calls = script, driver = Stopped, browser = Closed,
        page = forms [''cat'', ''dog''] ''dog'' [''a'', ''b''] ''b'' [''guest'', ''member''] ''member'',
        files = fs(''jules-scratch/verification/01_initial.png'' \<mapsto>
                     \<lparr>captured = demo_page, full_page = False\<rparr>,
                   ''jules-scratch/verification/02_auto_form_dog.png'' \<mapsto>
                     \<lparr>captured = forms [''cat'', ''dog''] ''dog'' [''a'', ''b''] ''a'' [''guest'', ''member''] ''guest'', full_page = False\<rparr>,
                   ''jules-scratch/verification/03_field_example_b.png'' \<mapsto>
                     \<lparr>captured = forms [''cat'', ''dog''] ''dog'' [''a'', ''b''] ''b'' [''guest'', ''member''] ''guest'', full_page = False\<rparr>,
                   ''jules-scratch/verification/04_select_example_member.png'' \<mapsto>
                     \<lparr>captured = forms [''cat'', ''dog''] ''dog'' [''a'', ''b''] ''b'' [''guest'', ''member''] ''member'', full_page = False\<rparr>)\<rparr>"
  unfolding demo_env_def demo_page_def
  by (rule main_serving_forms) simp_all



section \<open>The properties\<close>

text \<open>
  C1. A run that succeeds issues exactly the calls of the script, in the order of its
  statements, and nothing else: on the browser and the page it has acquired
  (\<^verbatim>\<open>launch\<close>, \<^verbatim>\<open>new_page\<close>) it navigates to \<^verbatim>\<open>http://localhost:3004/\<close>, captures
  \<^verbatim>\<open>01_initial.png\<close>, selects \<^verbatim>\<open>dog\<close> on the first control named \<^verbatim>\<open>type\<close>, captures
  \<^verbatim>\<open>02_auto_form_dog.png\<close>, selects \<^verbatim>\<open>b\<close> on the control labelled \<^verbatim>\<open>kind\<close>, captures
  \<^verbatim>\<open>03_field_example_b.png\<close>, selects \<^verbatim>\<open>member\<close> on the last control labelled \<^verbatim>\<open>type\<close>,
  captures \<^verbatim>\<open>04_select_example_member.png\<close> and closes the browser; the process exits
  with status 0. The screenshot files are in the directory \<^verbatim>\<open>jules-scratch/verification\<close>.
\<close>

theorem successful_run_actions:
  assumes "is_ok (main e fs)"
  shows "exit_status (main e fs) = 0 \<and>
    calls (world_of (main e fs)) =
      [Launch,
       New_page,
       Goto ''http://localhost:3004/'',
       Screenshot ''jules-scratch/verification/01_initial.png'' None,
       Select_option (First (Locator ''select'' ''name'' ''type'')) ''dog'',
       Screenshot ''jules-scratch/verification/02_auto_form_dog.png'' None,
       Select_option (Locator ''select'' ''aria-label'' ''kind'') ''b'',
       Screenshot ''jules-scratch/verification/03_field_example_b.png'' None,
       Select_option (Last (Locator ''select'' ''aria-label'' ''type'')) ''member'',
       Screenshot ''jules-scratch/verification/04_select_example_member.png'' None,
       Close] \<and>
    browser (world_of (main e fs)) = Closed \<and>
    driver (world_of (main e fs)) = Stopped"
proof -
  from assms obtain w where w: "main e fs = Ok w"
    by (cases "main e fs") simp_all
  from session_Ok_D [OF w [unfolded main_session]]
  have "calls w = [Launch,
       New_page,
       Goto ''http://localhost:3004/'',
       Screenshot ''jules-scratch/verification/01_initial.png'' None,
       Select_option (First (Locator ''select'' ''name'' ''type'')) ''dog'',
       Screenshot ''jules-scratch/verification/02_auto_form_dog.png'' None,
       Select_option (Locator ''select'' ''aria-label'' ''kind'') ''b'',
       Screenshot ''jules-scratch/verification/03_field_example_b.png'' None,
       Select_option (Last (Locator ''select'' ''aria-label'' ''type'')) ''member'',
       Screenshot ''jules-scratch/verification/04_select_example_member.png'' None,
       Close]" and "browser w = Closed" and "driver w = Stopped"
    by auto
  with w show ?thesis by simp
qed

theorem successful_run_actions_witness:
  "is_ok (main demo_env Map.empty) \<and>
   exit_status (main demo_env Map.empty) = 0 \<and>
   calls (world_of (main demo_env Map.empty)) = script \<and>
   browser (world_of (main demo_env Map.empty)) = Closed"
proof -
  have ok: "is_ok (main demo_env Map.empty)"
    by (simp add: main_demo)
  from successful_run_actions [OF ok] ok show ?thesis
    by (simp add: script_def)
qed

text \<open>
  C2. For every step that requests an option: if the run reaches the step and the value
  requested is not among the options of the step's control, the script stops there with
  the error of the call. Steps are counted from 0 here: selection \<open>k\<close> (for \<open>k < 3\<close>)
  comes after screenshot \<open>k\<close> and before screenshot \<open>k + 1\<close>; the first screenshot
  step requests no option. The screenshots \<open>0, \<dots>, k\<close> that precede the selection
  have been written, each showing the page after the selections before it; the files of
  the screenshots \<open>k + 1, \<dots>, 3\<close> are as they were before the run, and no call for them
  has been issued.
\<close>

theorem missing_option_stops_at_step:
  assumes up: "driver_ok e" "launch_ok e" "new_page_ok e"
    and site: "site e ''http://localhost:3004/'' = Some d0"
    and k: "k < length selections"
    and wr: "\<forall>j \<le> k. writable e (shots ! j)"
    and before: "select_all e d0 (take k selections) = Inr d"
    and ctl: "matching d (fst (selections ! k)) = [i]"
    and missing: "snd (selections ! k) \<notin> set (options (d ! i))"
  shows "\<exists>w. main e fs = Raised No_option w \<and> exit_status (main e fs) = 1 \<and>
      calls w = take (2 * k + 5) script \<and>
      last (calls w) = Select_option (fst (selections ! k)) (snd (selections ! k)) \<and>
      (\<forall>j \<le> k. \<exists>dj. select_all e d0 (take j selections) = Inr dj \<and>
          files w (shots ! j) = Some \<lparr>captured = dj, full_page = False\<rparr>) \<and>
      (\<forall>j. k < j \<and> j < length shots \<longrightarrow>
          files w (shots ! j) = fs (shots ! j) \<and> Screenshot (shots ! j) None \<notin> set (calls w))"
proof -
  have fails: "select_result e d (fst (selections ! k)) (snd (selections ! k)) = Inl No_option"
    using ctl missing by (rule select_result_no_option)
  from k have "k = 0 \<or> k = 1 \<or> k = 2"
    by (auto simp add: length_selections)
  then show ?thesis
  proof (elim disjE)
    assume k0: "k = 0"
    from before have d: "d = d0"
      by (simp add: k0)
    from wr have w0: "writable e (shots ! 0)"
      by (simp add: k0)
    have stop: "main e fs = Raised No_option
       \<lparr>calls = [Launch, New_page, Goto ''http://localhost:3004/'', Screenshot (shots ! 0) None,
                 Select_option (fst (selections ! 0)) (snd (selections ! 0))],
        driver = Stopped, browser = Launched, page = d0,
        files = fs(shots ! 0 \<mapsto> \<lparr>captured = d0, full_page = False\<rparr>)\<rparr>"
      unfolding main_session_indexed
      by (rule session_select1_raises [OF up site w0 fails [unfolded k0 d]])
    show ?thesis
      unfolding stop k0
      by (auto simp add: script_indexed shots_nth_eq length_shots)
  next
    assume k1: "k = 1"
    from before have d: "select_result e d0 (fst (selections ! 0)) (snd (selections ! 0)) = Inr d"
      by (simp add: k1 take_selections select_all_1 del: select_all.simps(2))
    from wr have w0: "writable e (shots ! 0)" and w1: "writable e (shots ! 1)"
      by (simp_all add: k1)
    have stop: "main e fs = Raised No_option
       \<lparr>calls = [Launch, New_page, Goto ''http://localhost:3004/'', Screenshot (shots ! 0) None,
                 Select_option (fst (selections ! 0)) (snd (selections ! 0)),
                 Screenshot (shots ! 1) None,
                 Select_option (fst (selections ! 1)) (snd (selections ! 1))],
        driver = Stopped, browser = Launched, page = d,
        files = fs(shots ! 0 \<mapsto> \<lparr>captured = d0, full_page = False\<rparr>,
                   shots ! 1 \<mapsto> \<lparr>captured = d, full_page = False\<rparr>)\<rparr>"
      unfolding main_session_indexed
      by (rule session_select2_raises [OF up site w0 d w1 fails [unfolded k1]])
    have "select_all e d0 (take j selections) = Inr (if j = 0 then d0 else d)" if "j \<le> 1" for j
    proof -
      from that have "j = 0 \<or> j = 1" by auto
      with d show ?thesis
        by (auto simp add: take_selections select_all_1 simp del: select_all.simps(2))
    qed
    then show ?thesis
      unfolding stop k1
      by (simp add: script_indexed shots_nth_eq length_shots)
  next
    assume k2: "k = 2"
    from before obtain d1 where
      d1: "select_result e d0 (fst (selections ! 0)) (snd (selections ! 0)) = Inr d1" and
      d: "select_result e d1 (fst (selections ! 1)) (snd (selections ! 1)) = Inr d"
      by (auto simp add: k2 take_selections select_all_2 simp del: select_all.simps(2))
    from wr have w0: "writable e (shots ! 0)" and w1: "writable e (shots ! 1)"
      and w2: "writable e (shots ! 2)"
      by (simp_all add: k2)
    have stop: "main e fs = Raised No_option
       \<lparr>calls = [Launch, New_page, Goto ''http://localhost:3004/'', Screenshot (shots ! 0) None,
                 Select_option (fst (selections ! 0)) (snd (selections ! 0)),
                 Screenshot (shots ! 1) None,
                 Select_option (fst (selections ! 1)) (snd (selections ! 1)),
                 Screenshot (shots ! 2) None,
                 Select_option (fst (selections ! 2)) (snd (selections ! 2))],
        driver = Stopped, browser = Launched, page = d,
        files = fs(shots ! 0 \<mapsto> \<lparr>captured = d0, full_page = False\<rparr>,
                   shots ! 1 \<mapsto> \<lparr>captured = d1, full_page = False\<rparr>,
                   shots ! 2 \<mapsto> \<lparr>captured = d, full_page = False\<rparr>)\<rparr>"
      unfolding main_session_indexed
      by (rule session_select3_raises [OF up site w0 d1 w1 d w2 fails [unfolded k2]])
    have "select_all e d0 (take j selections) = Inr (if j = 0 then d0 else if j = 1 then d1 else d)"
      if "j \<le> 2" for j
    proof -
      from that have "j = 0 \<or> j = 1 \<or> j = 2" by auto
      with d1 d show ?thesis
        by (auto simp add: take_selections select_all_1 select_all_2 simp del: select_all.simps(2))
    qed
    then show ?thesis
      unfolding stop k2
      by (simp add: script_indexed shots_nth_eq length_shots)
  qed
qed

theorem missing_option_stops_at_step_witness:
  "(1::nat) < length selections \<and>
   matching (forms [''cat'', ''dog''] ''dog'' [''a''] ''a'' [''guest'', ''member''] ''guest'')
     (fst (selections ! 1)) = [1] \<and>
   snd (selections ! 1) \<notin> set (options
     (forms [''cat'', ''dog''] ''dog'' [''a''] ''a'' [''guest'', ''member''] ''guest'' ! 1)) \<and>
   (\<exists>w. main (serving (forms [''cat'', ''dog''] ''cat'' [''a''] ''a'' [''guest'', ''member''] ''guest''))
          Map.empty = Raised No_option w \<and>
        calls w = take 7 script \<and>
        files w (shots ! 0) = Some \<lparr>captured =
          forms [''cat'', ''dog''] ''cat'' [''a''] ''a'' [''guest'', ''member''] ''guest'', full_page = False\<rparr> \<and>
        files w (shots ! 1) = Some \<lparr>captured =
          forms [''cat'', ''dog''] ''dog'' [''a''] ''a'' [''guest'', ''member''] ''guest'', full_page = False\<rparr> \<and>
        files w (shots ! 2) = None \<and>
        files w (shots ! 3) = None)"
proof -
  let ?P = "forms [''cat'', ''dog''] ''cat'' [''a''] ''a'' [''guest'', ''member''] ''guest''"
  let ?Q = "forms [''cat'', ''dog''] ''dog'' [''a''] ''a'' [''guest'', ''member''] ''guest''"
  have k: "(1::nat) < length selections"
    by (simp add: length_selections)
  have wr: "\<forall>j \<le> 1. writable (serving ?P) (shots ! j)"
    by (simp add: serving_simps)
  have s0: "select_all (serving ?P) ?P (take 0 selections) = Inr ?P"
    by simp
  have s1: "select_all (serving ?P) ?P (take 1 selections) = Inr ?Q"
    unfolding take_selections select_all_1 selections_nth by (simp add: select_forms)
  have ctl: "matching ?Q (fst (selections ! 1)) = [1]"
    unfolding selections_nth fst_conv by (rule matching_forms)
  have missing: "snd (selections ! 1) \<notin> set (options (?Q ! 1))"
    unfolding selections_nth by (simp add: forms_def select_ctl_def)
  from missing_option_stops_at_step [OF serving_simps(1,2,3,5) k wr s1 ctl missing, of Map.empty]
  obtain w where w: "main (serving ?P) Map.empty = Raised No_option w"
      "calls w = take (2 * 1 + 5) script"
      "\<forall>j \<le> 1. \<exists>dj. select_all (serving ?P) ?P (take j selections) = Inr dj \<and>
          files w (shots ! j) = Some \<lparr>captured = dj, full_page = False\<rparr>"
      "\<forall>j. 1 < j \<and> j < length shots \<longrightarrow>
          files w (shots ! j) = Map.empty (shots ! j) \<and> Screenshot (shots ! j) None \<notin> set (calls w)"
    by blast
  from w(3) [rule_format, of 0] s0
  have f0: "files w (shots ! 0) = Some \<lparr>captured = ?P, full_page = False\<rparr>"
    by simp
  from w(3) [rule_format, of 1] s1
  have f1: "files w (shots ! 1) = Some \<lparr>captured = ?Q, full_page = False\<rparr>"
    by simp
  from w(4) [rule_format, of 2] w(4) [rule_format, of 3]
  have f2: "files w (shots ! 2) = None" "files w (shots ! 3) = None"
    by (simp_all add: length_shots)
  from k ctl missing w(1,2) f0 f1 f2 show ?thesis
    by simp
qed

text \<open>
  C3. If the navigation fails (the server is unreachable or the page does not load), the
  run ends with an error, exit status 1, no screenshot call has been issued and the
  files on disk are those from before the run; when the browser and the page could be
  acquired, the error is that of \<^verbatim>\<open>goto\<close> and \<^verbatim>\<open>goto\<close> is the last call.
\<close>

theorem unreachable_page_no_screenshots:
  assumes "site e ''http://localhost:3004/'' = None"
  shows "\<not> is_ok (main e fs) \<and> exit_status (main e fs) = 1 \<and>
    files (world_of (main e fs)) = fs \<and>
    (\<forall>p fp. Screenshot p fp \<notin> set (calls (world_of (main e fs)))) \<and>
    (driver_ok e \<and> launch_ok e \<and> new_page_ok e \<longrightarrow>
       main e fs = Raised Navigation_error
         \<lparr>calls = [Launch, New_page, Goto ''http://localhost:3004/''],
          driver = Stopped, browser = Launched, page = [], files = fs\<rparr>)"
proof -
  have "\<not> is_ok (main e fs)"
    unfolding main_session using assms by (rule session_unreachable)
  moreover from this have "exit_status (main e fs) = 1"
    by (cases "main e fs") simp_all
  moreover have "files (world_of (main e fs)) = fs"
    unfolding main_session using assms by (rule session_unreachable)
  moreover have "Screenshot p fp \<notin> set (calls (world_of (main e fs)))" for p fp
    unfolding main_session using assms by (rule session_unreachable)
  moreover have "main e fs = Raised Navigation_error
         \<lparr>calls = [Launch, New_page, Goto ''http://localhost:3004/''],
          driver = Stopped, browser = Launched, page = [], files = fs\<rparr>"
    if "driver_ok e" "launch_ok e" "new_page_ok e"
    unfolding main_session using that assms by (rule session_goto_raises)
  ultimately show ?thesis by blast
qed

theorem unreachable_page_no_screenshots_witness:
  "site down_env ''http://localhost:3004/'' = None \<and>
   main down_env Map.empty = Raised Navigation_error
         \<lparr>calls = [Launch, New_page, Goto ''http://localhost:3004/''],
          driver = Stopped, browser = Launched, page = [], files = Map.empty\<rparr> \<and>
   exit_status (main down_env Map.empty) = 1 \<and>
   files (world_of (main down_env Map.empty)) = Map.empty"
proof -
  have down: "site down_env ''http://localhost:3004/'' = None"
    by (simp add: down_env_def)
  have up: "driver_ok down_env \<and> launch_ok down_env \<and> new_page_ok down_env"
    by (simp add: down_env_def demo_env_def serving_def)
  from unreachable_page_no_screenshots [OF down, of Map.empty] down up show ?thesis
    by blast
qed



text \<open>
  C5, as the claim states it: every one of the four screenshot actions persists a
  full-page screenshot. This fails: \<^verbatim>\<open>page.screenshot\<close> is called with \<^verbatim>\<open>path\<close> only,
  and without \<^verbatim>\<open>full_page=True\<close> the capture is that of the viewport. Here the first
  screenshot of a successful run is not a full-page one.
\<close>

theorem first_screenshot_not_full_page:
  "files (world_of (main demo_env Map.empty)) ''jules-scratch/verification/01_initial.png'' =
     Some \<lparr>captured = demo_page, full_page = False\<rparr>"
  by (simp add: main_demo)

text \<open>
  C5, amended: every screenshot call of the script passes only its literal path, which
  is one of the four paths of the script, and no \<^verbatim>\<open>full_page\<close> argument; in a run that
  succeeds each of the four calls is issued and persists, at its path, a screenshot of
  the viewport (\<open>full_page = False\<close>).
\<close>

theorem screenshots_capture_viewport:
  "(\<forall>p fp. Screenshot p fp \<in> set (calls (world_of (main e fs))) \<longrightarrow> fp = None \<and> p \<in> set shots) \<and>
   (is_ok (main e fs) \<longrightarrow>
      (\<forall>p \<in> set shots. Screenshot p None \<in> set (calls (world_of (main e fs))) \<and>
         (\<exists>d. files (world_of (main e fs)) p = Some \<lparr>captured = d, full_page = False\<rparr>)))"
proof -
  have "fp = None \<and> p \<in> set shots" if "Screenshot p fp \<in> set (calls (world_of (main e fs)))" for p fp
  proof -
    from that set_mono_prefix [OF main_prefix [of e fs]] have "Screenshot p fp \<in> set script"
      by blast
    then show ?thesis
      by (auto simp add: script_def shots_def)
  qed
  moreover have "Screenshot p None \<in> set (calls (world_of (main e fs))) \<and>
      (\<exists>d. files (world_of (main e fs)) p = Some \<lparr>captured = d, full_page = False\<rparr>)"
    if ok: "is_ok (main e fs)" and p: "p \<in> set shots" for p
  proof -
    from ok obtain w where w: "main e fs = Ok w"
      by (cases "main e fs") simp_all
    have "\<exists>d. files w p = Some \<lparr>captured = d, full_page = False\<rparr>"
      using p unfolding shots_def by (intro session_shots [OF w [unfolded main_session]]) simp
    moreover have "Screenshot p None \<in> set (calls w)"
      using p unfolding main_Ok_calls [OF w] by (auto simp add: script_def shots_def)
    ultimately show ?thesis by (simp add: w)
  qed
  ultimately show ?thesis by blast
qed

theorem screenshots_capture_viewport_witness:
  "is_ok (main demo_env Map.empty) \<and>
   Screenshot ''jules-scratch/verification/04_select_example_member.png'' None
     \<in> set (calls (world_of (main demo_env Map.empty))) \<and>
   (\<exists>d. files (world_of (main demo_env Map.empty))
          ''jules-scratch/verification/04_select_example_member.png'' =
        Some \<lparr>captured = d, full_page = False\<rparr>)"
proof -
  have ok: "is_ok (main demo_env Map.empty)"
    by (simp add: main_demo)
  have "''jules-scratch/verification/04_select_example_member.png'' \<in> set shots"
    by (simp add: shots_def)
  with screenshots_capture_viewport [of demo_env Map.empty] ok show ?thesis
    by blast
qed

text \<open>
  C6. In a run that succeeds the calls are issued in the order of the script, and the
  screenshots show the page exactly as the selections before them left it: the first
  the page as loaded, the second the page after the first selection, the third after
  the first two, the fourth after all three. When the application leaves the page as a
  selection made it (the controls are independent), a value selected earlier is still
  selected in every later screenshot, unless a later selection was made on the same
  control.
\<close>

theorem screenshots_follow_selections:
  assumes "is_ok (main e fs)"
  shows "\<exists>d0 d1 d2 d3.
    site e ''http://localhost:3004/'' = Some d0 \<and>
    select_result e d0 (First (Locator ''select'' ''name'' ''type'')) ''dog'' = Inr d1 \<and>
    select_result e d1 (Locator ''select'' ''aria-label'' ''kind'') ''b'' = Inr d2 \<and>
    select_result e d2 (Last (Locator ''select'' ''aria-label'' ''type'')) ''member'' = Inr d3 \<and>
    calls (world_of (main e fs)) = script \<and>
    files (world_of (main e fs)) ''jules-scratch/verification/01_initial.png'' =
      Some \<lparr>captured = d0, full_page = False\<rparr> \<and>
    files (world_of (main e fs)) ''jules-scratch/verification/02_auto_form_dog.png'' =
      Some \<lparr>captured = d1, full_page = False\<rparr> \<and>
    files (world_of (main e fs)) ''jules-scratch/verification/03_field_example_b.png'' =
      Some \<lparr>captured = d2, full_page = False\<rparr> \<and>
    files (world_of (main e fs)) ''jules-scratch/verification/04_select_example_member.png'' =
      Some \<lparr>captured = d3, full_page = False\<rparr> \<and>
    ((\<forall>d i. react e d i = d) \<longrightarrow>
       (\<exists>i1 i2 i3.
          matching d0 (First (Locator ''select'' ''name'' ''type'')) = [i1] \<and>
          matching d1 (Locator ''select'' ''aria-label'' ''kind'') = [i2] \<and>
          matching d2 (Last (Locator ''select'' ''aria-label'' ''type'')) = [i3] \<and>
          selected (d1 ! i1) = ''dog'' \<and>
          selected (d2 ! i2) = ''b'' \<and> (i1 \<noteq> i2 \<longrightarrow> selected (d2 ! i1) = ''dog'') \<and>
          selected (d3 ! i3) = ''member'' \<and> (i2 \<noteq> i3 \<longrightarrow> selected (d3 ! i2) = ''b'') \<and>
          (i1 \<noteq> i2 \<and> i1 \<noteq> i3 \<longrightarrow> selected (d3 ! i1) = ''dog'')))"
proof -
  from assms obtain d0 d1 d2 d3 where
    s: "site e ''http://localhost:3004/'' = Some d0"
      "select_result e d0 (First (Locator ''select'' ''name'' ''type'')) ''dog'' = Inr d1"
      "select_result e d1 (Locator ''select'' ''aria-label'' ''kind'') ''b'' = Inr d2"
      "select_result e d2 (Last (Locator ''select'' ''aria-label'' ''type'')) ''member'' = Inr d3"
    and w: "main e fs = Ok \<lparr>calls = script, driver = Stopped, browser = Closed, page = d3,
        files = fs(''jules-scratch/verification/01_initial.png'' \<mapsto> \<lparr>captured = d0, full_page = False\<rparr>,
                   ''jules-scratch/verification/02_auto_form_dog.png'' \<mapsto> \<lparr>captured = d1, full_page = False\<rparr>,
                   ''jules-scratch/verification/03_field_example_b.png'' \<mapsto> \<lparr>captured = d2, full_page = False\<rparr>,
                   ''jules-scratch/verification/04_select_example_member.png'' \<mapsto> \<lparr>captured = d3, full_page = False\<rparr>)\<rparr>"
    by (rule main_Ok_world)
  have f: "calls (world_of (main e fs)) = script"
    "files (world_of (main e fs)) ''jules-scratch/verification/01_initial.png'' =
      Some \<lparr>captured = d0, full_page = False\<rparr>"
    "files (world_of (main e fs)) ''jules-scratch/verification/02_auto_form_dog.png'' =
      Some \<lparr>captured = d1, full_page = False\<rparr>"
    "files (world_of (main e fs)) ''jules-scratch/verification/03_field_example_b.png'' =
      Some \<lparr>captured = d2, full_page = False\<rparr>"
    "files (world_of (main e fs)) ''jules-scratch/verification/04_select_example_member.png'' =
      Some \<lparr>captured = d3, full_page = False\<rparr>"
    unfolding w by simp_all
  note static_selections [OF _ s(2,3,4)]
  with s f show ?thesis
    by blast
qed

theorem screenshots_follow_selections_witness:
  "is_ok (main demo_env Map.empty) \<and>
   (\<forall>d i. react demo_env d i = d) \<and>
   files (world_of (main demo_env Map.empty)) ''jules-scratch/verification/01_initial.png'' =
     Some \<lparr>captured = forms [''cat'', ''dog''] ''cat'' [''a'', ''b''] ''a'' [''guest'', ''member''] ''guest'',
           full_page = False\<rparr> \<and>
   files (world_of (main demo_env Map.empty)) ''jules-scratch/verification/04_select_example_member.png'' =
     Some \<lparr>captured = forms [''cat'', ''dog''] ''dog'' [''a'', ''b''] ''b'' [''guest'', ''member''] ''member'',
           full_page = False\<rparr> \<and>
   selected (forms [''cat'', ''dog''] ''dog'' [''a'', ''b''] ''b'' [''guest'', ''member''] ''member'' ! 0) = ''dog'' \<and>
   selected (forms [''cat'', ''dog''] ''dog'' [''a'', ''b''] ''b'' [''guest'', ''member''] ''member'' ! 1) = ''b'' \<and>
   selected (forms [''cat'', ''dog''] ''dog'' [''a'', ''b''] ''b'' [''guest'', ''member''] ''member'' ! 2) = ''member''"
proof -
  let ?e = "serving (forms [''cat'', ''dog''] ''cat'' [''a'', ''b''] ''a'' [''guest'', ''member''] ''guest'')"
  have e: "demo_env = ?e"
    by (simp add: demo_env_def demo_page_def)
  have ok: "is_ok (main ?e Map.empty)"
    by (simp add: main_serving_forms)
  have st: "\<forall>d i. react ?e d i = d"
    by (simp add: serving_simps)
  from screenshots_follow_selections [OF ok] st obtain d0 d1 d2 d3 i1 i2 i3 where
    s: "site ?e ''http://localhost:3004/'' = Some d0"
      "select_result ?e d0 (First (Locator ''select'' ''name'' ''type'')) ''dog'' = Inr d1"
      "select_result ?e d1 (Locator ''select'' ''aria-label'' ''kind'') ''b'' = Inr d2"
      "select_result ?e d2 (Last (Locator ''select'' ''aria-label'' ''type'')) ''member'' = Inr d3"
    and f: "files (world_of (main ?e Map.empty)) ''jules-scratch/verification/01_initial.png'' =
        Some \<lparr>captured = d0, full_page = False\<rparr>"
      "files (world_of (main ?e Map.empty)) ''jules-scratch/verification/04_select_example_member.png'' =
        Some \<lparr>captured = d3, full_page = False\<rparr>"
    and m: "matching d0 (First (Locator ''select'' ''name'' ''type'')) = [i1]"
      "matching d1 (Locator ''select'' ''aria-label'' ''kind'') = [i2]"
      "matching d2 (Last (Locator ''select'' ''aria-label'' ''type'')) = [i3]"
    and v: "selected (d3 ! i3) = ''member''" "i2 \<noteq> i3 \<longrightarrow> selected (d3 ! i2) = ''b''"
      "i1 \<noteq> i2 \<and> i1 \<noteq> i3 \<longrightarrow> selected (d3 ! i1) = ''dog''"
    by blast
  from s(1) have d0: "d0 = forms [''cat'', ''dog''] ''cat'' [''a'', ''b''] ''a'' [''guest'', ''member''] ''guest''"
    by (simp add: serving_simps)
  from s(2) have d1: "d1 = forms [''cat'', ''dog''] ''dog'' [''a'', ''b''] ''a'' [''guest'', ''member''] ''guest''"
    unfolding d0 by (simp add: select_forms)
  from s(3) have d2: "d2 = forms [''cat'', ''dog''] ''dog'' [''a'', ''b''] ''b'' [''guest'', ''member''] ''guest''"
    unfolding d1 by (simp add: select_forms)
  from s(4) have d3: "d3 = forms [''cat'', ''dog''] ''dog'' [''a'', ''b''] ''b'' [''guest'', ''member''] ''member''"
    unfolding d2 by (simp add: select_forms)
  from m have i: "i1 = 0" "i2 = 1" "i3 = 2"
    unfolding d0 d1 d2 matching_forms by simp_all
  from ok st f v show ?thesis
    unfolding e d0 d3 i by simp
qed

text \<open>
  C7. If a run succeeds, a second run in the same surroundings, started on the files the
  first has left, succeeds as well and ends in the same state, with the same files: the
  four screenshots are written again over the existing ones, without error. The four
  files exist afterwards, and what they hold does not depend on what was on disk
  before a run.
\<close>

theorem rerun_overwrites:
  assumes "main e fs = Ok w"
  shows "main e (files w) = Ok w \<and>
    set shots \<subseteq> dom (files w) \<and>
    (\<forall>fs'. is_ok (main e fs') \<and> (\<forall>p \<in> set shots. files (world_of (main e fs')) p = files w p))"
proof -
  note r = session_rerun [OF assms [unfolded main_session], folded main_session]
  have "main e (files w) = Ok w"
    by (rule r)
  moreover have "set shots \<subseteq> dom (files w)"
    unfolding shots_def using r(2) by simp
  moreover have "is_ok (main e fs')" for fs'
    by (rule r)
  moreover have "files (world_of (main e fs')) p = files w p" if "p \<in> set shots" for fs' p
    using that unfolding shots_def by (intro r(4)) simp
  ultimately show ?thesis by blast
qed

theorem rerun_overwrites_witness:
  "main demo_env Map.empty = Ok (world_of (main demo_env Map.empty)) \<and>
   main demo_env (files (world_of (main demo_env Map.empty))) = Ok (world_of (main demo_env Map.empty)) \<and>
   is_ok (main demo_env (files (world_of (main demo_env Map.empty)))) \<and>
   files (world_of (main demo_env (files (world_of (main demo_env Map.empty)))))
       ''jules-scratch/verification/01_initial.png'' =
     files (world_of (main demo_env Map.empty)) ''jules-scratch/verification/01_initial.png''"
proof -
  have first: "main demo_env Map.empty = Ok (world_of (main demo_env Map.empty))"
    by (simp add: main_demo)
  have "''jules-scratch/verification/01_initial.png'' \<in> set shots"
    by (simp add: shots_def)
  with rerun_overwrites [OF first] first show ?thesis
    by blast
qed



text \<open>
  C9. The second selection uses the locator \<^verbatim>\<open>select[aria-label="kind"]\<close> as it is, without
  \<^verbatim>\<open>.first\<close> or \<^verbatim>\<open>.last\<close>. When the run reaches it, it raises if no control is labelled
  \<^verbatim>\<open>kind\<close>, and it raises a strict mode violation if more than one is; a run succeeds
  only if exactly one is. The first and the third selection never raise a strict mode
  violation: in any run that ends with one, the last call is the second selection.
\<close>

theorem kind_locator_is_strict:
  assumes "driver_ok e" "launch_ok e" "new_page_ok e"
    and "site e ''http://localhost:3004/'' = Some d0"
    and "writable e ''jules-scratch/verification/01_initial.png''"
    and "select_result e d0 (First (Locator ''select'' ''name'' ''type'')) ''dog'' = Inr d1"
    and "writable e ''jules-scratch/verification/02_auto_form_dog.png''"
  shows "(matching d1 (Locator ''select'' ''aria-label'' ''kind'') = [] \<longrightarrow>
      (\<exists>w. main e fs = Raised No_element w \<and>
           last (calls w) = Select_option (Locator ''select'' ''aria-label'' ''kind'') ''b'')) \<and>
    (1 < length (matching d1 (Locator ''select'' ''aria-label'' ''kind'')) \<longrightarrow>
      (\<exists>w. main e fs = Raised Strict_mode_violation w \<and>
           last (calls w) = Select_option (Locator ''select'' ''aria-label'' ''kind'') ''b'')) \<and>
    (is_ok (main e fs) \<longrightarrow> length (matching d1 (Locator ''select'' ''aria-label'' ''kind'')) = 1) \<and>
    (\<forall>e' fs' w. main e' fs' = Raised Strict_mode_violation w \<longrightarrow>
       last (calls w) = Select_option (Locator ''select'' ''aria-label'' ''kind'') ''b'')"
proof -
  let ?kind = "Locator ''select'' ''aria-label'' ''kind''"
  have stop: "\<exists>w. main e fs = Raised err w \<and> last (calls w) = Select_option ?kind ''b''"
    if "select_result e d1 ?kind ''b'' = Inl err" for err
    unfolding main_session
    using session_select2_raises [OF assms that] by simp
  have none: "\<exists>w. main e fs = Raised No_element w \<and> last (calls w) = Select_option ?kind ''b''"
    if "matching d1 ?kind = []"
    using that by (intro stop select_result_no_element)
  have many: "\<exists>w. main e fs = Raised Strict_mode_violation w \<and> last (calls w) = Select_option ?kind ''b''"
    if "1 < length (matching d1 ?kind)"
    using that by (intro stop select_result_strict)
  have one: "length (matching d1 ?kind) = 1" if ok: "is_ok (main e fs)"
  proof -
    from ok obtain w where w: "main e fs = Ok w"
      by (cases "main e fs") simp_all
    from session_Ok_D [OF w [unfolded main_session]] assms(4,6)
    obtain d2 where "select_result e d1 ?kind ''b'' = Inr d2"
      by auto
    then show ?thesis
      by (auto simp add: select_result_Inr_iff)
  qed
  have only: "last (calls w) = Select_option ?kind ''b''"
    if "main e' fs' = Raised Strict_mode_violation w" for e' fs' w
    using that unfolding main_session by (rule session_strict_only_second)
  from none many one only show ?thesis by blast
qed

theorem kind_locator_is_strict_witness:
  "(\<exists>w. main (serving (no_kind_page ''cat'')) Map.empty = Raised No_element w) \<and>
   (\<exists>w. main (serving (two_kind_page ''cat'')) Map.empty = Raised Strict_mode_violation w) \<and>
   is_ok (main demo_env Map.empty) \<and>
   length (matching (forms [''cat'', ''dog''] ''dog'' [''a'', ''b''] ''a'' [''guest'', ''member''] ''guest'')
     (Locator ''select'' ''aria-label'' ''kind'')) = 1"
proof -
  let ?P = "forms [''cat'', ''dog''] ''cat'' [''a'', ''b''] ''a'' [''guest'', ''member''] ''guest''"
  let ?Q = "forms [''cat'', ''dog''] ''dog'' [''a'', ''b''] ''a'' [''guest'', ''member''] ''guest''"
  have ok: "is_ok (main (serving ?P) Map.empty)"
    by (simp add: main_serving_forms)
  have sel: "select_result (serving ?P) ?P (First (Locator ''select'' ''name'' ''type'')) ''dog'' = Inr ?Q"
    by (simp add: select_forms)
  note zero = kind_locator_is_strict [of "serving (no_kind_page ''cat'')" "no_kind_page ''cat''"
      "no_kind_page ''dog''" Map.empty, OF serving_simps(1,2,3,5,4) kind_pages(1) serving_simps(4)]
  note two = kind_locator_is_strict [of "serving (two_kind_page ''cat'')" "two_kind_page ''cat''"
      "two_kind_page ''dog''" Map.empty, OF serving_simps(1,2,3,5,4) kind_pages(2) serving_simps(4)]
  note uniq = kind_locator_is_strict [of "serving ?P" ?P ?Q Map.empty,
      OF serving_simps(1,2,3,5,4) sel serving_simps(4)]
  have many: "1 < length (matching (two_kind_page ''dog'') (Locator ''select'' ''aria-label'' ''kind''))"
    unfolding kind_pages by simp
  from zero kind_pages(3) [of "''dog''"]
  have "\<exists>w. main (serving (no_kind_page ''cat'')) Map.empty = Raised No_element w"
    by blast
  moreover from two many
  have "\<exists>w. main (serving (two_kind_page ''cat'')) Map.empty = Raised Strict_mode_violation w"
    by blast
  moreover from uniq ok
  have "length (matching ?Q (Locator ''select'' ''aria-label'' ''kind'')) = 1"
    by blast
  ultimately show ?thesis
    unfolding demo_env_def demo_page_def using ok by blast
qed



end
